theory Spec2Isabelle
  imports Main
begin

section \<open>Values of the user model (src/models/user.js)\<close>

text \<open>
  Errors handed to callbacks are JavaScript values that the code only tests for
  truthiness and passes on; they are modelled as non-empty messages.
  An uncaught exception (a \<^verbatim>\<open>throw\<close>, or a property read on \<^verbatim>\<open>null\<close>) ends the
  operation without its callback being invoked.
\<close>

type_synonym err = string

datatype exn = TypeError | ReferenceError string | Rethrown err

text \<open>A mongoose ObjectId, held as its hexadecimal text; \<^verbatim>\<open>toString\<close> reads it back.\<close>

datatype oid = ObjectId string

fun toString :: "oid \<Rightarrow> string" where
  "toString (ObjectId h) = h"

text \<open>A JavaScript \<^verbatim>\<open>Date\<close> with a valid time value (milliseconds since the epoch).\<close>

datatype date = Date int

fun getTime :: "date \<Rightarrow> int" where
  "getTime (Date t) = t"

text \<open>
  \<^verbatim>\<open>new Date(v)\<close> for a watermark \<open>v\<close> read from the client's state object:
  \<open>None\<close> stands for \<^verbatim>\<open>undefined\<close> (no such property). The result \<open>None\<close> is the
  invalid date, whose time value is NaN; a number outside the range of time values
  gives the invalid date as well.
\<close>

definition new_Date :: "int option \<Rightarrow> int option" where
  "new_Date v =
     (case v of
        None \<Rightarrow> None
      | Some n \<Rightarrow> if \<bar>n\<bar> \<le> 8640000000000000 then Some n else None)"

text \<open>\<^verbatim>\<open>time > d\<close> for a number and a date: every comparison with NaN is false.\<close>

definition js_gt :: "int \<Rightarrow> int option \<Rightarrow> bool" where
  "js_gt time d = (case d of None \<Rightarrow> False | Some t \<Rightarrow> t < time)"

subsection \<open>Documents\<close>

record item =
  i_title :: string
  i_created :: date

text \<open>An item as sent to the client: \<^verbatim>\<open>created\<close> overwritten by its epoch value.\<close>

record item_epoch =
  ie_title :: string
  ie_created :: int

record channel =
  c_id :: oid
  c_type :: string
  c_url :: string
  c_domain :: string
  c_title :: "string option"
  c_items :: "item list"
  c_items_added :: "date option"

record feed =
  f_title :: string
  f_type :: string
  f_url :: string
  f_domain :: string

text \<open>
  The user schema. \<^verbatim>\<open>subscriptions\<close> is a Mixed object of which this file only ever
  enumerates the keys (channel ids as text); \<^verbatim>\<open>narrow\<close> is never read or written here.
\<close>

record user =
  u_id :: oid
  u_mail :: string
  u_pass :: "string option"
  u_created :: date
  u_subscriptions :: "string list"
  u_high :: date
  u_low :: date
  u_verification :: "string option"
  u_verified :: bool

record list_rec =
  l_type :: string
  l_name :: "string option"
  l_user_id :: oid
  l_channel_id :: oid
  l_weight :: "int option"

record update =
  up_id :: oid
  up_items_added :: int
  up_items :: "item_epoch list"

subsection \<open>Collaborators\<close>

text \<open>
  Every call the file makes to a collaborator (the storage models, the feed parser, the
  mailer, the notification hooks) is recorded, in the order the calls are issued. Where
  the file goes on inside the callback of a call, the call has completed before whatever
  follows it in the record. Where the file starts a call and goes on without it (the
  count updates of the hook after a user's removal), the moment the call completes and
  invokes its callback is recorded on its own, as \<open>CountCallback\<close> with the error the
  callback receives.
\<close>

datatype event =
    ParseFeed string
  | ChannelFindOne string
  | ChannelSave oid
  | ChannelCrawl oid
  | ListCreateFromChannel oid oid string
  | UpdateSubscriberCount oid
  | OnSubscribe oid "oid option"
  | ChannelFindById oid
  | ListCount oid oid
  | ListCreate oid oid
  | ListRemove oid oid
  | OnUnSubscribe oid oid
  | ChannelFind "oid list"
  | UserFindOne string
  | UserFindOneVerified string
  | UserCreate oid
  | UserSave oid
  | UserFindUnverified oid
  | CreateUserDefaults oid
  | Mail string string
  | OnSignup oid
  | OnActivate oid
  | StateRemove oid
  | OnAccountDelete oid
  | CountCallback oid "err option"

text \<open>The stored collections and the record of calls.\<close>

record world =
  w_users :: "user list"
  w_channels :: "channel list"
  w_lists :: "list_rec list"
  w_log :: "event list"

text \<open>
  What the file takes from outside itself: the feed parser's answer, the failure (if any)
  of each storage or collaborator call (a function of the call), the clock, the fresh
  ObjectId, SHA-1, the validator's string tests, and \<^verbatim>\<open>app.objectId\<close> (defined
  elsewhere in the application; taken here as a function that returns).
\<close>

record env =
  parseFeed :: "string \<Rightarrow> err + feed"
  fault :: "event \<Rightarrow> err option"
  now :: int
  new_oid :: oid
  sha1 :: "string \<Rightarrow> string"
  isEmail :: "string \<Rightarrow> bool"
  notEmpty :: "string \<Rightarrow> bool"
  objectId :: "string \<Rightarrow> oid"

definition emit :: "event \<Rightarrow> world \<Rightarrow> world" where
  "emit e w = w\<lparr>w_log := w_log w @ [e]\<rparr>"

text \<open>\<^verbatim>\<open>app.channel.find({_id: {$in: ids}}, function(err, results) ...)\<close>\<close>

definition channel_find :: "env \<Rightarrow> oid list \<Rightarrow> world \<Rightarrow> (err + channel list) \<times> world" where
  "channel_find env ids w =
     (case fault env (ChannelFind ids) of
        Some e \<Rightarrow> (Inl e, emit (ChannelFind ids) w)
      | None \<Rightarrow> (Inr (filter (\<lambda>c. c_id c \<in> set ids) (w_channels w)), emit (ChannelFind ids) w))"

section \<open>getChannelUpdates\<close>

text \<open>
  The client's state object: its keys in enumeration order with their values (a
  JavaScript object has each key once). The values are watermarks, numbers of
  milliseconds since the epoch. \<^verbatim>\<open>state[results[i]._id]\<close> reads the property named
  by the id's text.
\<close>

type_synonym watermarks = "(string \<times> int) list"

definition item_to_epoch :: "item \<Rightarrow> item_epoch" where
  "item_to_epoch it = \<lparr>ie_title = i_title it, ie_created = getTime (i_created it)\<rparr>"

text \<open>
  The loop over the query's results (lines 181 to 191). Line 189 calls
  \<^verbatim>\<open>results[i].items_added.getTime()\<close> without the guard of line 182: on a channel
  that has no \<^verbatim>\<open>items_added\<close> it throws a TypeError.
\<close>

fun updates_loop :: "watermarks \<Rightarrow> channel list \<Rightarrow> update list \<Rightarrow> exn + update list" where
  "updates_loop st [] updates = Inr updates"
| "updates_loop st (r # results) updates =
     (let time = (case c_items_added r of Some d \<Rightarrow> getTime d | None \<Rightarrow> 0) in
      if js_gt time (new_Date (map_of st (toString (c_id r)))) then
        (case c_items_added r of
           None \<Rightarrow> Inl TypeError
         | Some d \<Rightarrow>
             updates_loop st results
               (updates @ [\<lparr>up_id = c_id r, up_items_added = getTime d,
                            up_items = map item_to_epoch (c_items r)\<rparr>]))
      else updates_loop st results updates)"

text \<open>
  \<open>state = None\<close> is an absent (falsy) argument; an object, also the empty one, is
  truthy and takes the first branch.
\<close>

definition getChannelUpdates ::
  "env \<Rightarrow> user \<Rightarrow> watermarks option \<Rightarrow> world \<Rightarrow> world \<times> (exn + update list)" where
  "getChannelUpdates env self state w =
     (case state of
        None \<Rightarrow> (w, Inr [])
      | Some st \<Rightarrow>
          (let ids = map (objectId env) (map fst st) in
           case channel_find env ids w of
             (Inl e, w') \<Rightarrow> (w', Inl (Rethrown e))
           | (Inr results, w') \<Rightarrow> (w', updates_loop st results [])))"

text \<open>
  \<^verbatim>\<open>subscribedChannels\<close>: the channels whose ids are the keys of the user's
  \<^verbatim>\<open>subscriptions\<close>; a failed query is rethrown.
\<close>

definition subscribedChannels :: "env \<Rightarrow> user \<Rightarrow> world \<Rightarrow> world \<times> (exn + channel list)" where
  "subscribedChannels env self w =
     (let subscriptions = map (objectId env) (u_subscriptions self) in
      case channel_find env subscriptions w of
        (Inl e, w') \<Rightarrow> (w', Inl (Rethrown e))
      | (Inr chans, w') \<Rightarrow> (w', Inr chans))"

section \<open>Storage calls\<close>

text \<open>Each returns what its callback receives, and the world after the call.\<close>

definition channel_findOne :: "env \<Rightarrow> string \<Rightarrow> world \<Rightarrow> (err option \<times> channel option) \<times> world" where
  "channel_findOne env url w =
     (case fault env (ChannelFindOne url) of
        Some e \<Rightarrow> ((Some e, None), emit (ChannelFindOne url) w)
      | None \<Rightarrow> ((None, find (\<lambda>c. c_url c = url) (w_channels w)), emit (ChannelFindOne url) w))"

definition channel_findById :: "env \<Rightarrow> oid \<Rightarrow> world \<Rightarrow> (err option \<times> channel option) \<times> world" where
  "channel_findById env cid w =
     (case fault env (ChannelFindById cid) of
        Some e \<Rightarrow> ((Some e, None), emit (ChannelFindById cid) w)
      | None \<Rightarrow> ((None, find (\<lambda>c. c_id c = cid) (w_channels w)), emit (ChannelFindById cid) w))"

definition channel_save :: "env \<Rightarrow> channel \<Rightarrow> world \<Rightarrow> err option \<times> world" where
  "channel_save env ch w =
     (case fault env (ChannelSave (c_id ch)) of
        Some e \<Rightarrow> (Some e, emit (ChannelSave (c_id ch)) w)
      | None \<Rightarrow> (None, emit (ChannelSave (c_id ch)) (w\<lparr>w_channels := w_channels w @ [ch]\<rparr>)))"

text \<open>
  \<^verbatim>\<open>channel.crawl\<close> and \<^verbatim>\<open>channel.updateSubscriberCount\<close> belong to the channel model,
  which is not part of this file: each is a recorded call with an outcome.
\<close>

definition channel_crawl :: "env \<Rightarrow> channel \<Rightarrow> world \<Rightarrow> err option \<times> world" where
  "channel_crawl env ch w = (fault env (ChannelCrawl (c_id ch)), emit (ChannelCrawl (c_id ch)) w)"

definition updateSubscriberCount :: "env \<Rightarrow> channel \<Rightarrow> world \<Rightarrow> err option \<times> world" where
  "updateSubscriberCount env ch w =
     (fault env (UpdateSubscriberCount (c_id ch)), emit (UpdateSubscriberCount (c_id ch)) w)"

text \<open>
  Modelled from the spec: \<^verbatim>\<open>app.list.createFromChannel\<close> belongs to the list model, which
  is not part of this file. Section 4.1 of the specification has it create the
  subscription record of type "feed-derived" named by the feed's title.
\<close>

definition list_createFromChannel ::
  "env \<Rightarrow> oid \<Rightarrow> oid \<Rightarrow> string \<Rightarrow> world \<Rightarrow> err option \<times> world" where
  "list_createFromChannel env uid cid title w =
     (case fault env (ListCreateFromChannel uid cid title) of
        Some e \<Rightarrow> (Some e, emit (ListCreateFromChannel uid cid title) w)
      | None \<Rightarrow>
          (None, emit (ListCreateFromChannel uid cid title)
             (w\<lparr>w_lists := w_lists w @
                [\<lparr>l_type = ''feed-derived'', l_name = Some title, l_user_id = uid,
                  l_channel_id = cid, l_weight = None\<rparr>]\<rparr>)))"

definition list_count :: "env \<Rightarrow> oid \<Rightarrow> oid \<Rightarrow> world \<Rightarrow> (err option \<times> nat option) \<times> world" where
  "list_count env uid cid w =
     (case fault env (ListCount uid cid) of
        Some e \<Rightarrow> ((Some e, None), emit (ListCount uid cid) w)
      | None \<Rightarrow>
          ((None, Some (length (filter (\<lambda>l. l_user_id l = uid \<and> l_channel_id l = cid) (w_lists w)))),
           emit (ListCount uid cid) w))"

definition list_create :: "env \<Rightarrow> list_rec \<Rightarrow> world \<Rightarrow> err option \<times> world" where
  "list_create env l w =
     (case fault env (ListCreate (l_user_id l) (l_channel_id l)) of
        Some e \<Rightarrow> (Some e, emit (ListCreate (l_user_id l) (l_channel_id l)) w)
      | None \<Rightarrow>
          (None, emit (ListCreate (l_user_id l) (l_channel_id l)) (w\<lparr>w_lists := w_lists w @ [l]\<rparr>)))"

definition list_remove :: "env \<Rightarrow> oid \<Rightarrow> oid \<Rightarrow> world \<Rightarrow> err option \<times> world" where
  "list_remove env uid cid w =
     (case fault env (ListRemove uid cid) of
        Some e \<Rightarrow> (Some e, emit (ListRemove uid cid) w)
      | None \<Rightarrow>
          (None, emit (ListRemove uid cid)
             (w\<lparr>w_lists := filter (\<lambda>l. \<not> (l_user_id l = uid \<and> l_channel_id l = cid)) (w_lists w)\<rparr>)))"

definition state_remove :: "env \<Rightarrow> oid \<Rightarrow> world \<Rightarrow> err option \<times> world" where
  "state_remove env uid w = (fault env (StateRemove uid), emit (StateRemove uid) w)"

definition user_findOne :: "env \<Rightarrow> string \<Rightarrow> world \<Rightarrow> (err option \<times> user option) \<times> world" where
  "user_findOne env mail w =
     (case fault env (UserFindOne mail) of
        Some e \<Rightarrow> ((Some e, None), emit (UserFindOne mail) w)
      | None \<Rightarrow> ((None, find (\<lambda>u. u_mail u = mail) (w_users w)), emit (UserFindOne mail) w))"

definition user_findOne_verified ::
  "env \<Rightarrow> string \<Rightarrow> world \<Rightarrow> (err option \<times> user option) \<times> world" where
  "user_findOne_verified env mail w =
     (case fault env (UserFindOneVerified mail) of
        Some e \<Rightarrow> ((Some e, None), emit (UserFindOneVerified mail) w)
      | None \<Rightarrow>
          ((None, find (\<lambda>u. u_mail u = mail \<and> u_verified u) (w_users w)),
           emit (UserFindOneVerified mail) w))"

definition user_findUnverified ::
  "env \<Rightarrow> oid \<Rightarrow> world \<Rightarrow> (err option \<times> user option) \<times> world" where
  "user_findUnverified env uid w =
     (case fault env (UserFindUnverified uid) of
        Some e \<Rightarrow> ((Some e, None), emit (UserFindUnverified uid) w)
      | None \<Rightarrow>
          ((None, find (\<lambda>u. u_id u = uid \<and> \<not> u_verified u) (w_users w)),
           emit (UserFindUnverified uid) w))"

text \<open>
  Storing a new user document: the collection has unique indexes on \<^verbatim>\<open>_id\<close> and on
  \<^verbatim>\<open>mail\<close> (line 12), so a duplicate is refused by the store.
\<close>

definition user_insert :: "env \<Rightarrow> event \<Rightarrow> user \<Rightarrow> world \<Rightarrow> err option \<times> world" where
  "user_insert env ev u w =
     (case fault env ev of
        Some e \<Rightarrow> (Some e, emit ev w)
      | None \<Rightarrow>
          if u_mail u \<in> u_mail ` set (w_users w) \<or> u_id u \<in> u_id ` set (w_users w)
          then (Some ''E11000 duplicate key error'', emit ev w)
          else (None, emit ev (w\<lparr>w_users := w_users w @ [u]\<rparr>)))"

text \<open>Saving a document that was loaded from the store replaces the stored one.\<close>

definition user_save :: "env \<Rightarrow> user \<Rightarrow> world \<Rightarrow> err option \<times> world" where
  "user_save env u w =
     (case fault env (UserSave (u_id u)) of
        Some e \<Rightarrow> (Some e, emit (UserSave (u_id u)) w)
      | None \<Rightarrow>
          (None, emit (UserSave (u_id u))
             (w\<lparr>w_users := map (\<lambda>x. if u_id x = u_id u then u else x) (w_users w)\<rparr>)))"

section \<open>async.series\<close>

text \<open>
  A task either calls \<^verbatim>\<open>next\<close> (with an error or without) or throws. The tasks run in
  order on the variables they share; the first error, or an exception, ends the series.
\<close>

datatype signal = Next "err option" | Throw exn

fun series :: "('s \<Rightarrow> signal \<times> 's) list \<Rightarrow> 's \<Rightarrow> signal \<times> 's" where
  "series [] s = (Next None, s)"
| "series (t # ts) s =
     (case t s of
        (Next None, s') \<Rightarrow> series ts s'
      | (Next (Some e), s') \<Rightarrow> (Next (Some e), s')
      | (Throw x, s') \<Rightarrow> (Throw x, s'))"

section \<open>subscribe and subscribeToChannel\<close>

text \<open>The variables the tasks of a subscribe workflow share, and the world.\<close>

record frame =
  fr_channel :: "channel option"
  fr_feed :: "feed option"
  fr_world :: world

definition subscribe_parse :: "env \<Rightarrow> string \<Rightarrow> frame \<Rightarrow> signal \<times> frame" where
  "subscribe_parse env url fr =
     (let fr1 = fr\<lparr>fr_world := emit (ParseFeed url) (fr_world fr)\<rparr> in
      case parseFeed env url of
        Inl e \<Rightarrow> (Next (Some e), fr1)
      | Inr parsed_feed \<Rightarrow> (Next None, fr1\<lparr>fr_feed := Some parsed_feed\<rparr>))"

definition new_channel :: "env \<Rightarrow> feed \<Rightarrow> channel" where
  "new_channel env fd =
     \<lparr>c_id = new_oid env, c_type = f_type fd, c_url = f_url fd, c_domain = f_domain fd,
      c_title = None, c_items = [], c_items_added = None\<rparr>"

definition subscribe_resolve :: "env \<Rightarrow> frame \<Rightarrow> signal \<times> frame" where
  "subscribe_resolve env fr =
     (case fr_feed fr of
        None \<Rightarrow> (Throw TypeError, fr)
      | Some fd \<Rightarrow>
          (case channel_findOne env (f_url fd) (fr_world fr) of
             ((err, Some doc), w1) \<Rightarrow> (Next None, fr\<lparr>fr_channel := Some doc, fr_world := w1\<rparr>)
           | ((err, None), w1) \<Rightarrow>
               (case channel_save env (new_channel env fd) w1 of
                  (err', w2) \<Rightarrow>
                    (Next err', fr\<lparr>fr_channel := Some (new_channel env fd), fr_world := w2\<rparr>))))"

text \<open>The crawl's callback takes no argument: whatever the crawl reports is dropped.\<close>

definition subscribe_crawl :: "env \<Rightarrow> frame \<Rightarrow> signal \<times> frame" where
  "subscribe_crawl env fr =
     (case fr_channel fr of
        None \<Rightarrow> (Throw TypeError, fr)
      | Some ch \<Rightarrow> (Next None, fr\<lparr>fr_world := snd (channel_crawl env ch (fr_world fr))\<rparr>))"

definition subscribe_list :: "env \<Rightarrow> user \<Rightarrow> frame \<Rightarrow> signal \<times> frame" where
  "subscribe_list env self fr =
     (case (fr_channel fr, fr_feed fr) of
        (Some ch, Some fd) \<Rightarrow>
          (case list_createFromChannel env (u_id self) (c_id ch) (f_title fd) (fr_world fr) of
             (Some e, w1) \<Rightarrow> (Next (Some ''Could not update user subscription.''), fr\<lparr>fr_world := w1\<rparr>)
           | (None, w1) \<Rightarrow> (Next None, fr\<lparr>fr_world := w1\<rparr>))
      | _ \<Rightarrow> (Throw TypeError, fr))"

definition subscribe_count :: "env \<Rightarrow> frame \<Rightarrow> signal \<times> frame" where
  "subscribe_count env fr =
     (case fr_channel fr of
        None \<Rightarrow> (Throw TypeError, fr)
      | Some ch \<Rightarrow>
          (case updateSubscriberCount env ch (fr_world fr) of
             (Some e, w1) \<Rightarrow> (Next (Some ''Could not increment subscribers.''), fr\<lparr>fr_world := w1\<rparr>)
           | (None, w1) \<Rightarrow> (Next None, fr\<lparr>fr_world := w1\<rparr>)))"

text \<open>
  The final callback of a subscribe workflow (lines 79 to 82 and 123 to 126): it
  notifies and then hands \<^verbatim>\<open>(err, channel)\<close> to the caller. An exception in a task
  leaves it uncalled.
\<close>

definition subscribe_finish ::
  "user \<Rightarrow> signal \<times> frame \<Rightarrow> world \<times> (exn + err option \<times> channel option)" where
  "subscribe_finish self r =
     (case r of
        (Throw x, fr) \<Rightarrow> (fr_world fr, Inl x)
      | (Next err, fr) \<Rightarrow>
          (emit (OnSubscribe (u_id self) (map_option c_id (fr_channel fr))) (fr_world fr),
           Inr (err, fr_channel fr)))"

text \<open>The five tasks of \<^verbatim>\<open>subscribe\<close> (lines 34 to 78), in the order of the array.\<close>

definition subscribe_tasks :: "env \<Rightarrow> user \<Rightarrow> string \<Rightarrow> (frame \<Rightarrow> signal \<times> frame) list" where
  "subscribe_tasks env self url =
     [subscribe_parse env url, subscribe_resolve env, subscribe_crawl env,
      subscribe_list env self, subscribe_count env]"

text \<open>The variables as \<^verbatim>\<open>subscribe\<close> declares them, over the world it starts in.\<close>

definition frame0 :: "world \<Rightarrow> frame" where
  "frame0 w = \<lparr>fr_channel = None, fr_feed = None, fr_world = w\<rparr>"

definition subscribe ::
  "env \<Rightarrow> user \<Rightarrow> string \<Rightarrow> world \<Rightarrow> world \<times> (exn + err option \<times> channel option)" where
  "subscribe env self url w =
     subscribe_finish self (series (subscribe_tasks env self url) (frame0 w))"

definition toChannel_load :: "env \<Rightarrow> oid \<Rightarrow> frame \<Rightarrow> signal \<times> frame" where
  "toChannel_load env channel_id fr =
     (case channel_findById env channel_id (fr_world fr) of
        ((err, ch), w1) \<Rightarrow> (Next err, fr\<lparr>fr_channel := ch, fr_world := w1\<rparr>))"

text \<open>A failed count has no \<^verbatim>\<open>count\<close>, which is falsy: the task goes on.\<close>

definition toChannel_check :: "env \<Rightarrow> user \<Rightarrow> oid \<Rightarrow> frame \<Rightarrow> signal \<times> frame" where
  "toChannel_check env self channel_id fr =
     (case list_count env (u_id self) channel_id (fr_world fr) of
        ((err, Some (Suc n)), w1) \<Rightarrow>
          (Next (Some ''You are already subscribed to this site.''), fr\<lparr>fr_world := w1\<rparr>)
      | ((err, _), w1) \<Rightarrow> (Next None, fr\<lparr>fr_world := w1\<rparr>))"

text \<open>Reading \<^verbatim>\<open>channel.title\<close> throws when no channel was loaded.\<close>

definition toChannel_list :: "env \<Rightarrow> user \<Rightarrow> oid \<Rightarrow> frame \<Rightarrow> signal \<times> frame" where
  "toChannel_list env self channel_id fr =
     (case fr_channel fr of
        None \<Rightarrow> (Throw TypeError, fr)
      | Some ch \<Rightarrow>
          (case list_create env
                  \<lparr>l_type = ''channel'', l_name = c_title ch, l_user_id = u_id self,
                   l_channel_id = channel_id, l_weight = None\<rparr> (fr_world fr) of
             (Some e, w1) \<Rightarrow> (Next (Some ''Could not subscribe to this site.''), fr\<lparr>fr_world := w1\<rparr>)
           | (None, w1) \<Rightarrow> (Next None, fr\<lparr>fr_world := w1\<rparr>)))"

definition subscribeToChannel ::
  "env \<Rightarrow> user \<Rightarrow> oid \<Rightarrow> world \<Rightarrow> world \<times> (exn + err option \<times> channel option)" where
  "subscribeToChannel env self channel_id w =
     subscribe_finish self
       (series
          [toChannel_load env channel_id, toChannel_check env self channel_id,
           toChannel_list env self channel_id, subscribe_count env]
          (frame0 w))"

section \<open>unsubscribe\<close>

text \<open>
  Neither the removal's error nor the lookup's is read. The lookup's document is used
  unguarded: \<^verbatim>\<open>channel.updateSubscriberCount\<close> on \<^verbatim>\<open>null\<close> throws a TypeError, and then
  neither the notification nor the callback is reached.
\<close>

definition unsubscribe :: "env \<Rightarrow> user \<Rightarrow> oid \<Rightarrow> world \<Rightarrow> world \<times> (exn + unit)" where
  "unsubscribe env self channel_id w =
     (let w1 = snd (list_remove env (u_id self) channel_id w) in
      case channel_findById env channel_id w1 of
        ((err, None), w2) \<Rightarrow> (w2, Inl TypeError)
      | ((err, Some ch), w2) \<Rightarrow>
          (let w3 = snd (updateSubscriberCount env ch w2) in
           (emit (OnUnSubscribe (u_id self) (c_id ch)) w3, Inr ())))"

section \<open>Account lifecycle\<close>

text \<open>\<^verbatim>\<open>activate\<close> sets \<^verbatim>\<open>verified\<close> on the document, saves it, notifies, and hands the
  save's error to the caller. No other field is assigned.\<close>

definition activate :: "env \<Rightarrow> user \<Rightarrow> world \<Rightarrow> world \<times> user \<times> err option" where
  "activate env self w =
     (let self' = self\<lparr>u_verified := True\<rparr> in
      case user_save env self' w of
        (err, w1) \<Rightarrow> (emit (OnActivate (u_id self')) w1, self', err))"

text \<open>
  \<^verbatim>\<open>findOrCreate\<close>: when the creation fails its callback has no \<^verbatim>\<open>user\<close>, and reading
  \<^verbatim>\<open>user.mail\<close> throws.
\<close>

definition findOrCreate ::
  "env \<Rightarrow> string \<Rightarrow> world \<Rightarrow> world \<times> (exn + err option \<times> user option)" where
  "findOrCreate env mail w =
     (let date = Date (now env) in
      case user_findOne env mail w of
        ((err, Some usr), w1) \<Rightarrow> (w1, Inr (None, Some usr))
      | ((err, None), w1) \<Rightarrow>
          (let doc = \<lparr>u_id = new_oid env, u_mail = mail, u_pass = None, u_created = date,
                      u_subscriptions = [], u_high = date, u_low = date,
                      u_verification = None, u_verified = True\<rparr> in
           case user_insert env (UserCreate (u_id doc)) doc w1 of
             (Some e, w2) \<Rightarrow> (w2, Inl TypeError)
           | (None, w2) \<Rightarrow> (emit (Mail mail ''signup_auto'') w2, Inr (None, Some doc))))"

text \<open>\<^verbatim>\<open>hashPassword\<close>: SHA-1 of the salt, the id's text and the plain password.\<close>

definition hashPassword :: "env \<Rightarrow> string \<Rightarrow> string \<Rightarrow> string" where
  "hashPassword env ident plainPass = sha1 env (''lwearGYw3p29'' @ ident @ plainPass)"

text \<open>A number written in decimal, as string concatenation writes it.\<close>

fun show_nat :: "nat \<Rightarrow> string" where
  "show_nat n =
     (if n < 10 then [char_of (48 + n)] else show_nat (n div 10) @ [char_of (48 + n mod 10)])"

declare show_nat.simps [simp del]

definition show_int :: "int \<Rightarrow> string" where
  "show_int i = (if i < 0 then CHR ''-'' # show_nat (nat (- i)) else show_nat (nat i))"

record signup_data =
  d_mail :: string
  d_pass :: string
  d_pass2 :: string

text \<open>
  Modelled from the spec: \<^verbatim>\<open>app.getValidator\<close> is defined elsewhere in the application.
  Section 4.3 has the checks collect their messages in the order they are made, the
  first one being reported.
\<close>

definition validation_errors :: "env \<Rightarrow> signup_data \<Rightarrow> err list" where
  "validation_errors env data =
     (if isEmail env (d_mail data) then [] else [''E-mail is not valid.'']) @
     (if notEmpty env (d_pass data) then [] else [''Password is required.'']) @
     (if 6 \<le> length (d_pass data) then [] else [''Password must contain at least 6 characters.'']) @
     (if d_pass data = d_pass2 data then [] else [''Passwords do not match.''])"

definition signup ::
  "env \<Rightarrow> signup_data \<Rightarrow> world \<Rightarrow> world \<times> err option \<times> user option" where
  "signup env data w =
     (case validation_errors env data of
        e # es \<Rightarrow> (w, Some e, None)
      | [] \<Rightarrow>
          (case user_findOne env (d_mail data) w of
             ((err, Some usr), w1) \<Rightarrow> (w1, Some ''E-mail is already in use.'', None)
           | ((err, None), w1) \<Rightarrow>
               (let ident = new_oid env;
                    pass = hashPassword env (toString ident) (d_pass data);
                    date = Date (now env);
                    verification = sha1 env (''qwmi39ds'' @ show_int (getTime date));
                    usr = \<lparr>u_id = ident, u_mail = d_mail data, u_pass = Some pass, u_created = date,
                           u_subscriptions = [], u_high = date, u_low = date,
                           u_verification = Some verification, u_verified = False\<rparr> in
                case user_insert env (UserSave ident) usr w1 of
                  (Some e, w2) \<Rightarrow> (w2, Some ''Unable to create user account.'', None)
                | (None, w2) \<Rightarrow>
                    (emit (OnSignup ident)
                       (emit (Mail (u_mail usr) ''signup'') (emit (CreateUserDefaults ident) w2)),
                     None, Some usr))))"

text \<open>\<^verbatim>\<open>authenticate\<close>: one message for every refusal.\<close>

definition authenticate ::
  "env \<Rightarrow> string \<Rightarrow> string \<Rightarrow> world \<Rightarrow> world \<times> err option \<times> user option" where
  "authenticate env mail plainPass w =
     (case user_findOne_verified env mail w of
        ((err, None), w1) \<Rightarrow> (w1, Some ''Username or password does not match.'', None)
      | ((err, Some usr), w1) \<Rightarrow>
          if u_pass usr = Some (hashPassword env (toString (u_id usr)) plainPass)
          then (w1, None, Some usr)
          else (w1, Some ''Username or password does not match.'', None))"

text \<open>
  \<^verbatim>\<open>checkIfUnverified(user_id, callback)\<close> builds its filter from the identifier
  \<^verbatim>\<open>id\<close>. Neither the function (parameters \<^verbatim>\<open>user_id\<close>, \<^verbatim>\<open>callback\<close>) nor the enclosing
  \<^verbatim>\<open>attach\<close> function (\<^verbatim>\<open>options\<close>, \<^verbatim>\<open>app\<close>, \<^verbatim>\<open>_\<close>, \<^verbatim>\<open>$\<close>, \<^verbatim>\<open>async\<close>, \<^verbatim>\<open>check\<close>,
  \<^verbatim>\<open>feedparser\<close>, \<^verbatim>\<open>mongoose\<close>, \<^verbatim>\<open>uri\<close>, \<^verbatim>\<open>userSchema\<close>) declares it, so it is read from
  the global object \<open>globals\<close>; an identifier that resolves nowhere throws a
  ReferenceError while the argument is evaluated, before \<^verbatim>\<open>findOne\<close> is called.
  The result \<open>Inr r\<close> is the callback's argument.
\<close>

definition checkIfUnverified ::
  "env \<Rightarrow> (string \<Rightarrow> oid option) \<Rightarrow> oid \<Rightarrow> world \<Rightarrow> world \<times> (exn + err option)" where
  "checkIfUnverified env globals user_id w =
     (case globals ''id'' of
        None \<Rightarrow> (w, Inl (ReferenceError ''id''))
      | Some ident \<Rightarrow>
          (case user_findUnverified env ident w of
             ((Some e, doc), w1) \<Rightarrow> (w1, Inl (Rethrown e))
           | ((None, None), w1) \<Rightarrow> (w1, Inr (Some ''User not found or already verified.''))
           | ((None, Some doc), w1) \<Rightarrow> (w1, Inr None)))"

subsection \<open>The hook after a user's removal\<close>

text \<open>
  The state of the hook: the world, and the ids of the channels whose count update has
  been started and has not completed.

  The loop of line 344 starts one count update per channel, each with a callback that
  does nothing, and goes on at once: nothing in the loop waits for an update.
\<close>

fun update_counts :: "env \<Rightarrow> channel list \<Rightarrow> world \<times> oid list \<Rightarrow> world \<times> oid list" where
  "update_counts env [] s = s"
| "update_counts env (ch # chans) (w, started) =
     update_counts env chans (emit (UpdateSubscriberCount (c_id ch)) w, started @ [c_id ch])"

fun remove_state :: "env \<Rightarrow> user \<Rightarrow> world \<times> oid list \<Rightarrow> signal \<times> world \<times> oid list" where
  "remove_state env self (w, started) =
     (case state_remove env (u_id self) w of (err, w1) \<Rightarrow> (Next err, (w1, started)))"

fun remove_counts :: "env \<Rightarrow> user \<Rightarrow> world \<times> oid list \<Rightarrow> signal \<times> world \<times> oid list" where
  "remove_counts env self (w, started) =
     (case subscribedChannels env self w of
        (w1, Inl x) \<Rightarrow> (Throw x, (w1, started))
      | (w1, Inr chans) \<Rightarrow> (Next None, update_counts env chans (w1, started)))"

fun remove_notify :: "user \<Rightarrow> world \<times> oid list \<Rightarrow> signal \<times> world \<times> oid list" where
  "remove_notify self (w, started) = (Next None, (emit (OnAccountDelete (u_id self)) w, started))"

text \<open>
  The hook's own code (lines 336 to 355): the three tasks, up to the end of the turn of
  the event loop in which the last of them runs. The second and third task run in one
  turn, the callback of the channel query: \<^verbatim>\<open>next()\<close> of line 348 calls the third task
  directly.
\<close>

definition post_remove :: "env \<Rightarrow> user \<Rightarrow> world \<Rightarrow> signal \<times> world \<times> oid list" where
  "post_remove env self w =
     series [remove_state env self, remove_counts env self, remove_notify self] (w, [])"

text \<open>
  Modelled from the spec: \<^verbatim>\<open>channel.updateSubscriberCount\<close> belongs to the channel
  model, which is not part of this file. Section 5 of the specification makes every
  call to storage a suspension point: the update is performed, and its callback
  invoked, in a later turn of the event loop than the one that started it. The started
  updates complete here in the order they were started (they run side by side; the
  order among them is not fixed by the code).
\<close>

fun complete_counts :: "env \<Rightarrow> oid list \<Rightarrow> world \<Rightarrow> world" where
  "complete_counts env [] w = w"
| "complete_counts env (c # cs) w =
     complete_counts env cs (emit (CountCallback c (fault env (UpdateSubscriberCount c))) w)"

text \<open>The removal of a user, until nothing it started is left running.\<close>

definition removal_run :: "env \<Rightarrow> user \<Rightarrow> world \<Rightarrow> signal \<times> world" where
  "removal_run env self w =
     (case post_remove env self w of (sg, w1, started) \<Rightarrow> (sg, complete_counts env started w1))"

subsection \<open>Reachable stores of users\<close>

text \<open>
  The worlds that \<^verbatim>\<open>signup\<close>, \<^verbatim>\<open>findOrCreate\<close> and \<^verbatim>\<open>activate\<close> (on a stored user)
  lead to from a store without users, under any collaborators at each step.
\<close>

inductive reach :: "world \<Rightarrow> bool" where
  start: "w_users w = [] \<Longrightarrow> reach w"
| by_signup: "reach w \<Longrightarrow> reach (fst (signup env data w))"
| by_findOrCreate: "reach w \<Longrightarrow> reach (fst (findOrCreate env mail w))"
| by_activate: "reach w \<Longrightarrow> self \<in> set (w_users w) \<Longrightarrow> reach (fst (activate env self w))"

section \<open>Notions used to state the results\<close>

text \<open>
  The entry the loop of \<^verbatim>\<open>getChannelUpdates\<close> pushes for a channel, and the test that
  makes a channel dirty (line 184).
\<close>

definition entry_of :: "channel \<Rightarrow> update" where
  "entry_of r =
     \<lparr>up_id = c_id r,
      up_items_added = (case c_items_added r of Some d \<Rightarrow> getTime d | None \<Rightarrow> 0),
      up_items = map item_to_epoch (c_items r)\<rparr>"

definition dirty :: "watermarks \<Rightarrow> channel \<Rightarrow> bool" where
  "dirty st r =
     js_gt (case c_items_added r of Some d \<Rightarrow> getTime d | None \<Rightarrow> 0)
       (new_Date (map_of st (toString (c_id r))))"

text \<open>Nothing stored in the first frame's world is missing from the second's.\<close>

definition keeps :: "frame \<Rightarrow> frame \<Rightarrow> bool" where
  "keeps fr fr' \<longleftrightarrow>
     set (w_channels (fr_world fr)) \<subseteq> set (w_channels (fr_world fr')) \<and>
     set (w_lists (fr_world fr)) \<subseteq> set (w_lists (fr_world fr'))"

text \<open>
  The channels the hook finds for a user, and the record of a run of the hook in which
  the cleanup and the query succeed: cleanup, query, the start of one count update per
  channel, the notification, and only then the completion of the count updates.
\<close>

definition subscribed :: "env \<Rightarrow> user \<Rightarrow> world \<Rightarrow> oid list" where
  "subscribed env self w =
     map c_id
       (filter (\<lambda>c. c_id c \<in> set (map (objectId env) (u_subscriptions self))) (w_channels w))"

definition removal_calls :: "env \<Rightarrow> user \<Rightarrow> world \<Rightarrow> event list" where
  "removal_calls env self w =
     [StateRemove (u_id self), ChannelFind (map (objectId env) (u_subscriptions self))] @
     map UpdateSubscriberCount (subscribed env self w) @
     [OnAccountDelete (u_id self)] @
     map (\<lambda>c. CountCallback c (fault env (UpdateSubscriberCount c))) (subscribed env self w)"

section \<open>Concrete collaborators, documents and worlds\<close>

text \<open>Collaborators that never fail; the feed parser answers with the url it was given.\<close>

definition env_ok :: env where
  "env_ok =
     \<lparr>parseFeed = (\<lambda>url. Inr \<lparr>f_title = ''News'', f_type = ''rss'', f_url = url, f_domain = ''x.com''\<rparr>),
      fault = (\<lambda>ev. None),
      now = 1000,
      new_oid = ObjectId ''n1'',
      sha1 = (\<lambda>s. ''sha1:'' @ s),
      isEmail = (\<lambda>s. CHR ''@'' \<in> set s),
      notEmpty = (\<lambda>s. s \<noteq> []),
      objectId = ObjectId\<rparr>"

text \<open>The same collaborators with every storage and collaborator call failing.\<close>

definition env_down :: env where
  "env_down = env_ok\<lparr>fault := (\<lambda>ev. Some ''down'')\<rparr>"

text \<open>The feed cannot be parsed.\<close>

definition env_nofeed :: env where
  "env_nofeed = env_ok\<lparr>parseFeed := (\<lambda>url. Inl ''feed unreachable'')\<rparr>"

text \<open>Only the crawl fails.\<close>

definition env_nocrawl :: env where
  "env_nocrawl =
     env_ok\<lparr>fault := (\<lambda>ev. case ev of ChannelCrawl c \<Rightarrow> Some ''crawl failed'' | _ \<Rightarrow> None)\<rparr>"

text \<open>Only the creation of the subscription record fails.\<close>

definition env_nolist :: env where
  "env_nolist =
     env_ok\<lparr>fault := (\<lambda>ev. case ev of ListCreateFromChannel u c t \<Rightarrow> Some ''write failed'' | _ \<Rightarrow> None)\<rparr>"

text \<open>Only the subscriber count updates fail.\<close>

definition env_nocount :: env where
  "env_nocount =
     env_ok\<lparr>fault := (\<lambda>ev. case ev of UpdateSubscriberCount c \<Rightarrow> Some ''count failed'' | _ \<Rightarrow> None)\<rparr>"

definition chan_a :: channel where
  "chan_a =
     \<lparr>c_id = ObjectId ''a'', c_type = ''rss'', c_url = ''http://a.com/feed'', c_domain = ''a.com'',
      c_title = Some ''A'', c_items = [\<lparr>i_title = ''first'', i_created = Date 150\<rparr>],
      c_items_added = Some (Date 200)\<rparr>"

text \<open>A channel that was never crawled.\<close>

definition chan_b :: channel where
  "chan_b =
     \<lparr>c_id = ObjectId ''b'', c_type = ''rss'', c_url = ''http://b.com/feed'', c_domain = ''b.com'',
      c_title = Some ''B'', c_items = [], c_items_added = None\<rparr>"

text \<open>A verified user subscribed to both channels, and one subscribed to nothing.\<close>

definition alice :: user where
  "alice =
     \<lparr>u_id = ObjectId ''u1'', u_mail = ''a@x.com'',
      u_pass = Some (hashPassword env_ok ''u1'' ''secret1''), u_created = Date 10,
      u_subscriptions = [''a'', ''b''], u_high = Date 10, u_low = Date 10,
      u_verification = None, u_verified = True\<rparr>"

definition bob :: user where
  "bob =
     \<lparr>u_id = ObjectId ''u2'', u_mail = ''b@x.com'',
      u_pass = Some (hashPassword env_ok ''u2'' ''secret2''), u_created = Date 20,
      u_subscriptions = [], u_high = Date 20, u_low = Date 20,
      u_verification = Some ''token'', u_verified = False\<rparr>"

definition world_empty :: world where
  "world_empty = \<lparr>w_users = [], w_channels = [], w_lists = [], w_log = []\<rparr>"

definition world_ab :: world where
  "world_ab =
     \<lparr>w_users = [alice, bob], w_channels = [chan_a, chan_b],
      w_lists =
        [\<lparr>l_type = ''channel'', l_name = Some ''A'', l_user_id = ObjectId ''u1'',
          l_channel_id = ObjectId ''a'', l_weight = None\<rparr>,
         \<lparr>l_type = ''channel'', l_name = Some ''B'', l_user_id = ObjectId ''u1'',
          l_channel_id = ObjectId ''b'', l_weight = None\<rparr>],
      w_log = []\<rparr>"

text \<open>The feed that \<^verbatim>\<open>env_ok\<close> parses at a new address, and the channel created for it.\<close>

definition feed_n :: feed where
  "feed_n = \<lparr>f_title = ''News'', f_type = ''rss'', f_url = ''http://n.com'', f_domain = ''x.com''\<rparr>"

definition chan_n :: channel where
  "chan_n = new_channel env_ok feed_n"

text \<open>A sign-up, and the activation of the user it stored.\<close>

definition data_carol :: signup_data where
  "data_carol = \<lparr>d_mail = ''c@x.com'', d_pass = ''secret3'', d_pass2 = ''secret3''\<rparr>"

definition world_signed :: world where
  "world_signed = fst (signup env_ok data_carol world_empty)"

definition carol :: user where
  "carol = hd (w_users world_signed)"

definition world_activated :: world where
  "world_activated = fst (activate env_ok carol world_signed)"

text \<open>The frame of \<^verbatim>\<open>subscribe\<close> at the new address once the crawl has been started.\<close>

definition frame_n3 :: frame where
  "frame_n3 =
     \<lparr>fr_channel = Some chan_n, fr_feed = Some feed_n,
      fr_world = \<lparr>w_users = [], w_channels = [chan_n], w_lists = [],
                  w_log = [ParseFeed ''http://n.com'', ChannelFindOne ''http://n.com'',
                           ChannelSave (ObjectId ''n1''), ChannelCrawl (ObjectId ''n1'')]\<rparr>\<rparr>"

section \<open>Facts used throughout\<close>

lemmas example_defs =
  env_ok_def env_down_def env_nofeed_def env_nocrawl_def env_nolist_def env_nocount_def
  chan_a_def chan_b_def alice_def bob_def world_empty_def world_ab_def feed_n_def chan_n_def

lemmas storage_defs =
  emit_def channel_find_def channel_findOne_def channel_findById_def channel_save_def
  channel_crawl_def updateSubscriberCount_def list_createFromChannel_def list_count_def
  list_create_def list_remove_def state_remove_def user_findOne_def
  user_findOne_verified_def user_findUnverified_def user_insert_def user_save_def

lemmas task_defs =
  subscribe_parse_def subscribe_resolve_def subscribe_crawl_def subscribe_list_def
  subscribe_count_def

lemma find_SomeD: "find P xs = Some x \<Longrightarrow> x \<in> set xs \<and> P x"
  by (induction xs) (auto split: if_splits)

section \<open>Subscribe notifications (C1)\<close>

text \<open>
  Whenever a subscribe workflow reaches its final callback, with an error or without,
  the last call it has made is the subscribe notification.
\<close>

lemma subscribe_notifies:
  "subscribe env self url w = (w', Inr (err, ch)) \<Longrightarrow>
   \<exists>lg. w_log w' = lg @ [OnSubscribe (u_id self) (map_option c_id ch)]"
  by (auto simp: subscribe_def subscribe_finish_def emit_def split: prod.splits signal.splits)

lemma subscribeToChannel_notifies:
  "subscribeToChannel env self cid w = (w', Inr (err, ch)) \<Longrightarrow>
   \<exists>lg. w_log w' = lg @ [OnSubscribe (u_id self) (map_option c_id ch)]"
  by (auto simp: subscribeToChannel_def subscribe_finish_def emit_def
      split: prod.splits signal.splits)

text \<open>
  Claim C1 says that the subscribe notification is emitted only when every step of the
  workflow succeeded. The code emits it on failure too: \<^verbatim>\<open>subscribe\<close> of a feed that
  cannot be parsed notifies (with no channel) and then reports the parse error, and
  \<^verbatim>\<open>subscribeToChannel\<close> of a channel the user is already subscribed to notifies and
  then reports that error.
\<close>

theorem subscribe_notifies_on_failure:
  "subscribe env_nofeed alice ''http://n.com'' world_empty =
     (world_empty\<lparr>w_log := [ParseFeed ''http://n.com'', OnSubscribe (ObjectId ''u1'') None]\<rparr>,
      Inr (Some ''feed unreachable'', None)) \<and>
   subscribeToChannel env_ok alice (ObjectId ''a'') world_ab =
     (world_ab\<lparr>w_log := [ChannelFindById (ObjectId ''a''),
                          ListCount (ObjectId ''u1'') (ObjectId ''a''),
                          OnSubscribe (ObjectId ''u1'') (Some (ObjectId ''a''))]\<rparr>,
      Inr (Some ''You are already subscribed to this site.'', Some chan_a))"
  by (simp add: subscribe_def subscribeToChannel_def subscribe_tasks_def frame0_def
      subscribe_finish_def subscribe_parse_def toChannel_load_def toChannel_check_def
      example_defs storage_defs)

section \<open>getChannelUpdates: which channels are reported (C2)\<close>

lemma updates_loop_ids:
  "updates_loop st rs acc = Inr ups \<Longrightarrow> set (map up_id ups) \<subseteq> set (map up_id acc) \<union> c_id ` set rs"
proof (induction rs arbitrary: acc)
  case Nil
  then show ?case by simp
next
  case (Cons r rs)
  then show ?case
    by (fastforce simp: Let_def split: if_splits option.splits)
qed

text \<open>
  Claim C2, as the code has it: \<^verbatim>\<open>getChannelUpdates\<close> queries exactly the ids made from
  the keys of the client's watermarks, without intersecting them with the user's
  subscriptions. Whenever it returns updates, the one call issued is that query, every
  reported channel is a stored channel whose id comes from a key of the watermarks, and
  any other user gets the same answer.
\<close>

theorem getChannelUpdates_reports_queried_ids:
  assumes "getChannelUpdates env self (Some st) w = (w', Inr ups)"
  shows "w' = emit (ChannelFind (map (objectId env) (map fst st))) w \<and>
         set (map up_id ups) \<subseteq> objectId env ` fst ` set st \<inter> c_id ` set (w_channels w) \<and>
         getChannelUpdates env other (Some st) w = (w', Inr ups)"
proof -
  let ?ids = "map (objectId env) (map fst st)"
  let ?rs = "filter (\<lambda>c. c_id c \<in> set ?ids) (w_channels w)"
  from assms have ok: "fault env (ChannelFind ?ids) = None"
    by (auto simp: getChannelUpdates_def channel_find_def Let_def split: option.splits)
  with assms have w': "w' = emit (ChannelFind ?ids) w" and loop: "updates_loop st ?rs [] = Inr ups"
    by (auto simp: getChannelUpdates_def channel_find_def Let_def)
  from updates_loop_ids [OF loop] have "set (map up_id ups) \<subseteq> c_id ` set ?rs" by simp
  also have "\<dots> \<subseteq> objectId env ` fst ` set st \<inter> c_id ` set (w_channels w)" by auto
  finally have sub: "set (map up_id ups) \<subseteq> objectId env ` fst ` set st \<inter> c_id ` set (w_channels w)" .
  from ok w' loop have "getChannelUpdates env other (Some st) w = (w', Inr ups)"
    by (simp add: getChannelUpdates_def channel_find_def Let_def)
  with w' sub show ?thesis by blast
qed

text \<open>
  Claim C2 as stated fails: bob is subscribed to nothing, and a watermark for channel
  \<open>a\<close> gets him its update.
\<close>

theorem getChannelUpdates_unsubscribed_channel:
  "snd (getChannelUpdates env_ok bob (Some [(''a'', 0)]) world_ab) =
     Inr [\<lparr>up_id = ObjectId ''a'', up_items_added = 200,
           up_items = [\<lparr>ie_title = ''first'', ie_created = 150\<rparr>]\<rparr>] \<and>
   u_subscriptions bob = []"
  by (simp add: getChannelUpdates_def example_defs storage_defs new_Date_def js_gt_def
      item_to_epoch_def)

text \<open>The theorem at bob's and alice's request for the channels \<open>a\<close> and \<open>zz\<close>.\<close>

theorem getChannelUpdates_reports_queried_ids_witness:
  "getChannelUpdates env_ok bob (Some [(''a'', 0), (''zz'', 5)]) world_ab =
     (emit (ChannelFind [ObjectId ''a'', ObjectId ''zz'']) world_ab, Inr [entry_of chan_a]) \<and>
   getChannelUpdates env_ok alice (Some [(''a'', 0), (''zz'', 5)]) world_ab =
     (emit (ChannelFind [ObjectId ''a'', ObjectId ''zz'']) world_ab, Inr [entry_of chan_a]) \<and>
   set (map up_id [entry_of chan_a]) \<subseteq>
     ObjectId ` fst ` set [(''a'', 0::int), (''zz'', 5)] \<inter> c_id ` set (w_channels world_ab)"
proof -
  have run: "getChannelUpdates env_ok bob (Some [(''a'', 0), (''zz'', 5)]) world_ab =
     (emit (ChannelFind [ObjectId ''a'', ObjectId ''zz'']) world_ab, Inr [entry_of chan_a])"
    by (simp add: getChannelUpdates_def example_defs storage_defs new_Date_def js_gt_def
        item_to_epoch_def entry_of_def)
  from getChannelUpdates_reports_queried_ids [OF run, of alice] run
  show ?thesis by (simp add: env_ok_def)
qed

section \<open>unsubscribe (C3)\<close>

text \<open>
  What the code does keep of the claim: the removal is issued first, and when it
  succeeds no record of the pair is left, whatever happens afterwards; a pair without
  a record leaves the records as they are.
\<close>

lemma unsubscribe_removes:
  "fault env (ListRemove (u_id self) cid) = None \<Longrightarrow>
   w_lists (fst (unsubscribe env self cid w)) =
     filter (\<lambda>l. \<not> (l_user_id l = u_id self \<and> l_channel_id l = cid)) (w_lists w)"
  by (auto simp: unsubscribe_def storage_defs Let_def split: option.splits)

lemma unsubscribe_no_record:
  "\<forall>l \<in> set (w_lists w). \<not> (l_user_id l = u_id self \<and> l_channel_id l = cid) \<Longrightarrow>
   w_lists (fst (unsubscribe env self cid w)) = w_lists w"
  by (auto simp: unsubscribe_def storage_defs Let_def split: option.splits)

text \<open>A channel that is not in the store makes every unsubscribe end in a TypeError.\<close>

lemma unsubscribe_missing_channel:
  "find (\<lambda>c. c_id c = cid) (w_channels w) = None \<Longrightarrow>
   snd (unsubscribe env self cid w) = Inl TypeError"
  by (auto simp: unsubscribe_def storage_defs Let_def split: option.splits)

text \<open>
  Claim C3 says that when the channel cannot be loaded the removal still succeeds, only
  the count update is skipped, and no error reaches the caller. The code, for a channel
  id that is not in the store: the removal and the lookup are made, then reading
  \<^verbatim>\<open>updateSubscriberCount\<close> of the missing channel throws a TypeError; the
  notification is not emitted and the caller's callback is never invoked.
\<close>

theorem unsubscribe_missing_channel_throws:
  "unsubscribe env_ok alice (ObjectId ''gone'') world_ab =
     (world_ab\<lparr>w_log := [ListRemove (ObjectId ''u1'') (ObjectId ''gone''),
                          ChannelFindById (ObjectId ''gone'')]\<rparr>,
      Inl TypeError)"
  by (simp add: unsubscribe_def example_defs storage_defs)

section \<open>The verification token (C4)\<close>

lemma signup_users:
  "u \<in> set (w_users (fst (signup env data w))) \<Longrightarrow>
   u \<in> set (w_users w) \<or> (\<not> u_verified u \<and> u_verification u \<noteq> None)"
  by (auto simp: signup_def user_findOne_def user_insert_def emit_def Let_def
      split: list.splits option.splits if_splits)

lemma findOrCreate_users:
  "u \<in> set (w_users (fst (findOrCreate env mail w))) \<Longrightarrow>
   u \<in> set (w_users w) \<or> (u_verified u \<and> u_verification u = None)"
  by (auto simp: findOrCreate_def user_findOne_def user_insert_def emit_def Let_def
      split: list.splits option.splits if_splits)

lemma activate_users:
  "u \<in> set (w_users (fst (activate env self w))) \<Longrightarrow>
   u \<in> set (w_users w) \<or> u = self\<lparr>u_verified := True\<rparr>"
  by (auto simp: activate_def user_save_def emit_def Let_def split: option.splits if_splits)

lemma reach_pending:
  "reach w \<Longrightarrow> u \<in> set (w_users w) \<Longrightarrow> u_verification u = None \<Longrightarrow> u_verified u"
proof (induction arbitrary: u rule: reach.induct)
  case (start w)
  then show ?case by simp
next
  case (by_signup w env data)
  then show ?case using signup_users by blast
next
  case (by_findOrCreate w env mail)
  then show ?case using findOrCreate_users by blast
next
  case (by_activate w self env)
  from activate_users [OF by_activate.prems(1)] show ?case
  proof
    assume "u \<in> set (w_users w)"
    with by_activate show ?thesis by blast
  next
    assume "u = self\<lparr>u_verified := True\<rparr>"
    then show ?thesis by simp
  qed
qed

lemma world_signed_eq:
  "world_signed =
     \<lparr>w_users =
        [\<lparr>u_id = ObjectId ''n1'', u_mail = ''c@x.com'',
          u_pass = Some ''sha1:lwearGYw3p29n1secret3'', u_created = Date 1000,
          u_subscriptions = [], u_high = Date 1000, u_low = Date 1000,
          u_verification = Some ''sha1:qwmi39ds1000'', u_verified = False\<rparr>],
      w_channels = [], w_lists = [],
      w_log = [UserFindOne ''c@x.com'', UserSave (ObjectId ''n1''),
               CreateUserDefaults (ObjectId ''n1''), Mail ''c@x.com'' ''signup'',
               OnSignup (ObjectId ''n1'')]\<rparr>"
  by code_simp

lemma carol_eq:
  "carol =
     \<lparr>u_id = ObjectId ''n1'', u_mail = ''c@x.com'',
      u_pass = Some ''sha1:lwearGYw3p29n1secret3'', u_created = Date 1000,
      u_subscriptions = [], u_high = Date 1000, u_low = Date 1000,
      u_verification = Some ''sha1:qwmi39ds1000'', u_verified = False\<rparr>"
  by (simp add: carol_def world_signed_eq)

lemma reach_signed: "reach world_signed"
  unfolding world_signed_def
  by (rule reach.by_signup, rule reach.start) (simp add: world_empty_def)

lemma carol_stored: "carol \<in> set (w_users world_signed)"
  by (simp add: carol_eq world_signed_eq)

lemma reach_activated: "reach world_activated"
  unfolding world_activated_def
  by (rule reach.by_activate [OF reach_signed carol_stored])

lemma world_activated_users: "w_users world_activated = [carol\<lparr>u_verified := True\<rparr>]"
  by (simp add: world_activated_def activate_def user_save_def emit_def env_ok_def carol_eq
      world_signed_eq Let_def)

text \<open>
  Claim C4, as the code has it: in every store reachable through \<^verbatim>\<open>signup\<close>,
  \<^verbatim>\<open>findOrCreate\<close> and \<^verbatim>\<open>activate\<close>, a user without a verification token is verified
  (an unverified user always carries a token); and \<^verbatim>\<open>activate\<close> sets \<^verbatim>\<open>verified\<close>
  and leaves every other field, the token included, as it was.
\<close>

theorem verification_token_invariant:
  assumes "reach w" and "u \<in> set (w_users w)"
  shows "(u_verification u = None \<longrightarrow> u_verified u) \<and>
         fst (snd (activate env u w)) = u\<lparr>u_verified := True\<rparr>"
  using reach_pending [OF assms] by (simp add: activate_def Let_def split: prod.splits)

text \<open>
  Claim C4 as stated fails: after carol's sign-up and activation the stored user is
  verified and still carries her token.
\<close>

theorem activate_keeps_token:
  "reach world_activated \<and>
   w_users world_activated = [carol\<lparr>u_verified := True\<rparr>] \<and>
   u_verified (carol\<lparr>u_verified := True\<rparr>) \<and>
   u_verification (carol\<lparr>u_verified := True\<rparr>) = Some ''sha1:qwmi39ds1000''"
  using reach_activated world_activated_users by (simp add: carol_eq)

text \<open>The theorem at carol, stored by her sign-up.\<close>

theorem verification_token_invariant_witness:
  "reach world_signed \<and> carol \<in> set (w_users world_signed) \<and>
   u_verification carol = Some ''sha1:qwmi39ds1000'' \<and> \<not> u_verified carol \<and>
   fst (snd (activate env_ok carol world_signed)) = carol\<lparr>u_verified := True\<rparr>"
  using verification_token_invariant [OF reach_signed carol_stored, of env_ok]
    reach_signed carol_stored
  by (simp add: carol_eq)

section \<open>subscribe: the first error (C5)\<close>

lemma series_first_error:
  "k < length ts \<Longrightarrow> series (take k ts) s = (Next None, s1) \<Longrightarrow>
   (ts ! k) s1 = (Next (Some e), s2) \<Longrightarrow> series ts s = (Next (Some e), s2)"
proof (induction ts arbitrary: k s)
  case Nil
  then show ?case by simp
next
  case (Cons t ts)
  show ?case
  proof (cases k)
    case 0
    with Cons.prems show ?thesis by simp
  next
    case (Suc j)
    with Cons.prems obtain s' where t: "t s = (Next None, s')"
      and rest: "series (take j ts) s' = (Next None, s1)"
      by (auto split: prod.splits signal.splits option.splits)
    from Cons.IH [OF _ rest] Cons.prems Suc have "series ts s' = (Next (Some e), s2)" by simp
    with t show ?thesis by simp
  qed
qed

lemma keeps_trans: "keeps a b \<Longrightarrow> keeps b c \<Longrightarrow> keeps a c"
  by (auto simp: keeps_def)

lemma task_keeps:
  "t \<in> set (subscribe_tasks env self url) \<Longrightarrow> t fr = (sg, fr') \<Longrightarrow> keeps fr fr'"
  by (auto simp: subscribe_tasks_def task_defs storage_defs keeps_def Let_def
      split: sum.splits option.splits prod.splits)

lemma series_keeps:
  assumes "\<forall>t \<in> set ts. \<forall>fr sg fr'. t fr = (sg, fr') \<longrightarrow> keeps fr fr'"
    and "series ts s = (sg, s')"
  shows "keeps s s'"
  using assms
proof (induction ts arbitrary: s)
  case Nil
  then show ?case by (simp add: keeps_def)
next
  case (Cons t ts)
  obtain g s1 where t: "t s = (g, s1)" by (cases "t s")
  with Cons.prems(1) have k1: "keeps s s1" by auto
  from Cons.prems(1) have rest: "\<forall>t \<in> set ts. \<forall>fr sg fr'. t fr = (sg, fr') \<longrightarrow> keeps fr fr'"
    by simp
  show ?case
  proof (cases "g = Next None")
    case True
    with t Cons.prems(2) have "series ts s1 = (sg, s')" by simp
    from Cons.IH [OF rest this] k1 show ?thesis by (blast intro: keeps_trans)
  next
    case False
    with t Cons.prems(2) have "s' = s1"
      by (cases g) (auto split: option.splits)
    with k1 show ?thesis by simp
  qed
qed

lemma failed_task_stores:
  "t \<in> set (subscribe_tasks env self url) \<Longrightarrow> t fr = (Next (Some e), fr') \<Longrightarrow>
   w_channels (fr_world fr') = w_channels (fr_world fr) \<and>
   w_lists (fr_world fr') = w_lists (fr_world fr)"
  by (auto simp: subscribe_tasks_def task_defs storage_defs Let_def
      split: sum.splits option.splits prod.splits)

lemma crawl_never_fails: "subscribe_crawl env fr \<noteq> (Next (Some e), fr')"
  by (simp add: subscribe_crawl_def split: option.splits)

lemma parse_error:
  "subscribe_parse env url fr = (Next (Some e), fr') \<Longrightarrow> parseFeed env url = Inl e"
  by (auto simp: subscribe_parse_def Let_def split: sum.splits)

lemma resolve_error:
  "subscribe_resolve env fr = (Next (Some e), fr') \<Longrightarrow>
   fault env (ChannelSave (new_oid env)) = Some e"
  by (auto simp: subscribe_resolve_def channel_save_def new_channel_def
      split: option.splits prod.splits)

lemma list_error:
  "subscribe_list env self fr = (Next (Some e), fr') \<Longrightarrow>
   e = ''Could not update user subscription.''"
  by (auto simp: subscribe_list_def split: option.splits prod.splits)

lemma count_error:
  "subscribe_count env fr = (Next (Some e), fr') \<Longrightarrow> e = ''Could not increment subscribers.''"
  by (auto simp: subscribe_count_def split: option.splits prod.splits)

text \<open>Each collaborator failure that a task passes on as an error.\<close>

lemma parse_fails:
  "parseFeed env url = Inl e \<Longrightarrow>
   subscribe_parse env url fr = (Next (Some e), fr\<lparr>fr_world := emit (ParseFeed url) (fr_world fr)\<rparr>)"
  by (simp add: subscribe_parse_def)

lemma save_fails:
  "fr_feed fr = Some fd \<Longrightarrow> snd (fst (channel_findOne env (f_url fd) (fr_world fr))) = None \<Longrightarrow>
   fault env (ChannelSave (new_oid env)) = Some e \<Longrightarrow>
   fst (subscribe_resolve env fr) = Next (Some e)"
  by (auto simp: subscribe_resolve_def channel_save_def new_channel_def
      split: option.splits prod.splits)

lemma list_fails:
  "fr_channel fr = Some ch \<Longrightarrow> fr_feed fr = Some fd \<Longrightarrow>
   fault env (ListCreateFromChannel (u_id self) (c_id ch) (f_title fd)) = Some e \<Longrightarrow>
   fst (subscribe_list env self fr) = Next (Some ''Could not update user subscription.'')"
  by (simp add: subscribe_list_def list_createFromChannel_def)

lemma count_fails:
  "fr_channel fr = Some ch \<Longrightarrow> fault env (UpdateSubscriberCount (c_id ch)) = Some e \<Longrightarrow>
   fst (subscribe_count env fr) = Next (Some ''Could not increment subscribers.'')"
  by (simp add: subscribe_count_def updateSubscriberCount_def)

text \<open>
  Claim C5, as the code has it. Let the tasks before task \<open>k\<close> have succeeded, leaving
  the frame \<open>fr\<close>, and let task \<open>k\<close> pass the error \<open>e\<close> on, leaving \<open>fr'\<close>. Then no
  later task runs: the workflow ends in the world task \<open>k\<close> left, plus the
  notification, and hands \<open>e\<close> to the caller. Task \<open>k\<close> is not the crawl, whose outcome
  is dropped. \<open>e\<close> is the parser's error, or the error of saving the new channel (a
  failed lookup is not an error of the workflow), or a fixed message for the
  subscription record and for the subscriber count. The failing task stores nothing,
  and everything stored before it, by the earlier tasks too, is still stored.
\<close>

theorem subscribe_first_error:
  assumes k: "k < length (subscribe_tasks env self url)"
    and before: "series (take k (subscribe_tasks env self url)) (frame0 w) = (Next None, fr)"
    and fails: "(subscribe_tasks env self url ! k) fr = (Next (Some e), fr')"
  shows "subscribe env self url w =
           (emit (OnSubscribe (u_id self) (map_option c_id (fr_channel fr'))) (fr_world fr'),
            Inr (Some e, fr_channel fr')) \<and>
         k \<noteq> 2 \<and>
         (k = 0 \<longrightarrow> parseFeed env url = Inl e) \<and>
         (k = 1 \<longrightarrow> fault env (ChannelSave (new_oid env)) = Some e) \<and>
         (k = 3 \<longrightarrow> e = ''Could not update user subscription.'') \<and>
         (k = 4 \<longrightarrow> e = ''Could not increment subscribers.'') \<and>
         w_channels (fr_world fr') = w_channels (fr_world fr) \<and>
         w_lists (fr_world fr') = w_lists (fr_world fr) \<and>
         set (w_channels w) \<subseteq> set (w_channels (fr_world fr)) \<and>
         set (w_lists w) \<subseteq> set (w_lists (fr_world fr))"
proof -
  from series_first_error [OF k before fails]
  have run: "subscribe env self url w =
           (emit (OnSubscribe (u_id self) (map_option c_id (fr_channel fr'))) (fr_world fr'),
            Inr (Some e, fr_channel fr'))"
    by (simp add: subscribe_def subscribe_finish_def)
  from fails have k2: "k \<noteq> 2"
    by (auto simp: subscribe_tasks_def crawl_never_fails)
  from fails have e0: "k = 0 \<longrightarrow> parseFeed env url = Inl e"
    by (auto simp: subscribe_tasks_def dest: parse_error)
  from fails have e1: "k = 1 \<longrightarrow> fault env (ChannelSave (new_oid env)) = Some e"
    by (auto simp: subscribe_tasks_def dest: resolve_error)
  from fails have e3: "k = 3 \<longrightarrow> e = ''Could not update user subscription.''"
    by (auto simp: subscribe_tasks_def dest: list_error)
  from fails have e4: "k = 4 \<longrightarrow> e = ''Could not increment subscribers.''"
    by (auto simp: subscribe_tasks_def dest: count_error)
  from k have "subscribe_tasks env self url ! k \<in> set (subscribe_tasks env self url)"
    by (rule nth_mem)
  from failed_task_stores [OF this fails]
  have same: "w_channels (fr_world fr') = w_channels (fr_world fr) \<and>
              w_lists (fr_world fr') = w_lists (fr_world fr)" .
  have "\<forall>t \<in> set (take k (subscribe_tasks env self url)).
          \<forall>fr sg fr'. t fr = (sg, fr') \<longrightarrow> keeps fr fr'"
    by (blast dest: in_set_takeD intro: task_keeps)
  from series_keeps [OF this before] have "keeps (frame0 w) fr" .
  then have kept: "set (w_channels w) \<subseteq> set (w_channels (fr_world fr)) \<and>
                   set (w_lists w) \<subseteq> set (w_lists (fr_world fr))"
    by (simp add: keeps_def frame0_def)
  from run k2 e0 e1 e3 e4 same kept show ?thesis by simp
qed

text \<open>
  Claim C5 as stated fails at the crawl: the crawl fails, and the subscription record
  is created, the subscriber count updated and no error returned all the same.
\<close>

theorem subscribe_ignores_crawl_failure:
  "subscribe env_nocrawl alice ''http://n.com'' world_empty =
     (\<lparr>w_users = [], w_channels = [chan_n],
       w_lists = [\<lparr>l_type = ''feed-derived'', l_name = Some ''News'', l_user_id = ObjectId ''u1'',
                   l_channel_id = ObjectId ''n1'', l_weight = None\<rparr>],
       w_log = [ParseFeed ''http://n.com'', ChannelFindOne ''http://n.com'',
                ChannelSave (ObjectId ''n1''), ChannelCrawl (ObjectId ''n1''),
                ListCreateFromChannel (ObjectId ''u1'') (ObjectId ''n1'') ''News'',
                UpdateSubscriberCount (ObjectId ''n1''),
                OnSubscribe (ObjectId ''u1'') (Some (ObjectId ''n1''))]\<rparr>,
      Inr (None, Some chan_n)) \<and>
   fst (channel_crawl env_nocrawl chan_n world_empty) = Some ''crawl failed''"
  by code_simp

text \<open>
  The theorem where the subscription record cannot be created: the channel saved by
  the second task stays in the store.
\<close>

theorem subscribe_first_error_witness:
  "subscribe env_nolist alice ''http://n.com'' world_empty =
     (\<lparr>w_users = [], w_channels = [chan_n], w_lists = [],
       w_log = [ParseFeed ''http://n.com'', ChannelFindOne ''http://n.com'',
                ChannelSave (ObjectId ''n1''), ChannelCrawl (ObjectId ''n1''),
                ListCreateFromChannel (ObjectId ''u1'') (ObjectId ''n1'') ''News'',
                OnSubscribe (ObjectId ''u1'') (Some (ObjectId ''n1''))]\<rparr>,
      Inr (Some ''Could not update user subscription.'', Some chan_n))"
proof -
  have k: "3 < length (subscribe_tasks env_nolist alice ''http://n.com'')"
    by (simp add: subscribe_tasks_def)
  have before:
    "series (take 3 (subscribe_tasks env_nolist alice ''http://n.com'')) (frame0 world_empty) =
       (Next None, frame_n3)"
    by code_simp
  have fails:
    "(subscribe_tasks env_nolist alice ''http://n.com'' ! 3) frame_n3 =
       (Next (Some ''Could not update user subscription.''),
        frame_n3\<lparr>fr_world :=
          emit (ListCreateFromChannel (ObjectId ''u1'') (ObjectId ''n1'') ''News'')
            (fr_world frame_n3)\<rparr>)"
    by code_simp
  from subscribe_first_error [OF k before fails] show ?thesis
    by (simp add: frame_n3_def emit_def alice_def chan_n_def new_channel_def env_ok_def
        feed_n_def)
qed

section \<open>getChannelUpdates: the dirty test (C6)\<close>

text \<open>
  Where no dirty channel lacks \<^verbatim>\<open>items_added\<close>, the loop returns exactly the entries
  of the dirty channels, in the order of the query's results.
\<close>

lemma updates_loop_dirty:
  "\<forall>r \<in> set rs. dirty st r \<longrightarrow> c_items_added r \<noteq> None \<Longrightarrow>
   updates_loop st rs acc = Inr (acc @ map entry_of (filter (dirty st) rs))"
  by (induction rs arbitrary: acc) (auto simp: Let_def dirty_def entry_of_def)

text \<open>A channel whose watermark equals its server time is not dirty.\<close>

lemma equal_watermark_not_dirty:
  "c_items_added r = Some (Date t) \<Longrightarrow> map_of st (toString (c_id r)) = Some t \<Longrightarrow> \<not> dirty st r"
  by (simp add: dirty_def js_gt_def new_Date_def)

text \<open>
  Claim C6 at a channel that was never crawled: its server time is 0, so under a
  negative watermark it is dirty and should be reported with \<^verbatim>\<open>itemsAddedAt\<close> 0.
  Building its entry throws a TypeError instead (line 189 reads
  \<^verbatim>\<open>items_added.getTime()\<close> where line 182 guarded it), and the caller gets no result
  at all.
\<close>

theorem getChannelUpdates_never_crawled_throws:
  "getChannelUpdates env_ok alice (Some [(''b'', - 1)]) world_ab =
     (world_ab\<lparr>w_log := [ChannelFind [ObjectId ''b'']]\<rparr>, Inl TypeError)"
  by (simp add: getChannelUpdates_def example_defs storage_defs new_Date_def js_gt_def
      item_to_epoch_def)

section \<open>getChannelUpdates: no watermarks (C7)\<close>

text \<open>
  Claim C7, as the code has it: with no watermarks argument the answer is the empty list
  and nothing is queried. With an empty watermarks object the channel query is still
  issued, for no ids: the answer is the empty list when that query succeeds, and the
  query's error is thrown when it fails.
\<close>

theorem getChannelUpdates_no_watermarks:
  "getChannelUpdates env self None w = (w, Inr []) \<and>
   (fault env (ChannelFind []) = None \<longrightarrow>
      getChannelUpdates env self (Some []) w = (emit (ChannelFind []) w, Inr [])) \<and>
   (\<forall>e. fault env (ChannelFind []) = Some e \<longrightarrow>
      getChannelUpdates env self (Some []) w = (emit (ChannelFind []) w, Inl (Rethrown e)))"
  by (simp add: getChannelUpdates_def channel_find_def)

text \<open>Claim C7 as stated fails: an empty watermarks object while the store is down.\<close>

theorem getChannelUpdates_empty_query_fails:
  "getChannelUpdates env_down alice (Some []) world_empty =
     (world_empty\<lparr>w_log := [ChannelFind []]\<rparr>, Inl (Rethrown ''down''))"
  by (simp add: getChannelUpdates_def example_defs storage_defs)

text \<open>The theorem with the store up and with the store down.\<close>

theorem getChannelUpdates_no_watermarks_witness:
  "getChannelUpdates env_ok alice None world_ab = (world_ab, Inr []) \<and>
   getChannelUpdates env_ok alice (Some []) world_ab = (emit (ChannelFind []) world_ab, Inr []) \<and>
   getChannelUpdates env_down alice (Some []) world_ab =
     (emit (ChannelFind []) world_ab, Inl (Rethrown ''down''))"
  using getChannelUpdates_no_watermarks [of env_ok alice world_ab]
    getChannelUpdates_no_watermarks [of env_down alice world_ab]
  by (simp add: env_ok_def env_down_def)

section \<open>authenticate (C8)\<close>

text \<open>
  Claim C8: \<^verbatim>\<open>authenticate\<close> either hands back a stored user who has the given mail,
  is verified, and whose stored hash is \<^verbatim>\<open>hashPassword\<close> of the user's id and the given
  password, or reports the one message ``Username or password does not match.'' and no
  user.
\<close>

theorem authenticate_user_or_generic_error:
  "(\<exists>u. snd (authenticate env mail plainPass w) = (None, Some u) \<and>
        u \<in> set (w_users w) \<and> u_mail u = mail \<and> u_verified u \<and>
        u_pass u = Some (hashPassword env (toString (u_id u)) plainPass)) \<or>
   snd (authenticate env mail plainPass w) = (Some ''Username or password does not match.'', None)"
  by (auto simp: authenticate_def user_findOne_verified_def split: option.splits
      dest: find_SomeD)

text \<open>
  Alice logs in with her password. An unknown mail, the unverified bob with his right
  password, alice with a wrong password, and a failing store all get the same answer.
\<close>

lemma authenticate_examples:
  "snd (authenticate env_ok ''a@x.com'' ''secret1'' world_ab) = (None, Some alice) \<and>
   snd (authenticate env_ok ''nobody@x.com'' ''secret1'' world_ab) =
     (Some ''Username or password does not match.'', None) \<and>
   snd (authenticate env_ok ''b@x.com'' ''secret2'' world_ab) =
     (Some ''Username or password does not match.'', None) \<and>
   snd (authenticate env_ok ''a@x.com'' ''wrong'' world_ab) =
     (Some ''Username or password does not match.'', None) \<and>
   snd (authenticate env_down ''a@x.com'' ''secret1'' world_ab) =
     (Some ''Username or password does not match.'', None)"
  by code_simp

section \<open>The hook after a user's removal (C9)\<close>

lemma update_counts_eq:
  "update_counts env chans (w, started) =
     (w\<lparr>w_log := w_log w @ map (\<lambda>c. UpdateSubscriberCount (c_id c)) chans\<rparr>,
      started @ map c_id chans)"
  by (induction chans arbitrary: w started) (simp_all add: emit_def)

lemma complete_counts_eq:
  "complete_counts env cs w =
     w\<lparr>w_log := w_log w @ map (\<lambda>c. CountCallback c (fault env (UpdateSubscriberCount c))) cs\<rparr>"
  by (induction cs arbitrary: w) (simp_all add: emit_def)

text \<open>
  What the code keeps of the claim. When the cleanup fails nothing else is done. When
  the cleanup and the channel query succeed, the cleanup comes first and a count update
  is started for every channel found, whichever of the updates fail; but the
  notification is issued before any of them completes.
\<close>

lemma removal_run_cleanup_fails:
  "fault env (StateRemove (u_id self)) = Some e \<Longrightarrow>
   removal_run env self w = (Next (Some e), emit (StateRemove (u_id self)) w)"
  by (simp add: removal_run_def post_remove_def state_remove_def)

lemma removal_run_complete:
  assumes "fault env (StateRemove (u_id self)) = None"
    and "fault env (ChannelFind (map (objectId env) (u_subscriptions self))) = None"
  shows "removal_run env self w = (Next None, w\<lparr>w_log := w_log w @ removal_calls env self w\<rparr>)"
  using assms
  by (simp add: removal_run_def post_remove_def subscribedChannels_def state_remove_def
      channel_find_def emit_def update_counts_eq complete_counts_eq removal_calls_def
      subscribed_def comp_def)

lemma removal_run_counts_fail:
  "removal_run env_nocount alice world_ab =
     (Next None,
      world_ab\<lparr>w_log := [StateRemove (ObjectId ''u1''),
                          ChannelFind [ObjectId ''a'', ObjectId ''b''],
                          UpdateSubscriberCount (ObjectId ''a''),
                          UpdateSubscriberCount (ObjectId ''b''),
                          OnAccountDelete (ObjectId ''u1''),
                          CountCallback (ObjectId ''a'') (Some ''count failed''),
                          CountCallback (ObjectId ''b'') (Some ''count failed'')]\<rparr>)"
  using removal_run_complete [of env_nocount alice world_ab]
  by (simp add: example_defs removal_calls_def subscribed_def)

text \<open>
  Claim C9 says that the subscriber counts are decremented second and the notification
  comes last. The code, at alice's removal with every collaborator succeeding: the
  count updates for her channels \<open>a\<close> and \<open>b\<close> are started with a callback that does
  nothing, \<^verbatim>\<open>next()\<close> is called at once, and the account-deletion notification is issued
  in the same turn, before either update has completed.
\<close>

theorem post_remove_notifies_before_counts:
  "removal_run env_ok alice world_ab =
     (Next None,
      world_ab\<lparr>w_log := [StateRemove (ObjectId ''u1''),
                          ChannelFind [ObjectId ''a'', ObjectId ''b''],
                          UpdateSubscriberCount (ObjectId ''a''),
                          UpdateSubscriberCount (ObjectId ''b''),
                          OnAccountDelete (ObjectId ''u1''),
                          CountCallback (ObjectId ''a'') None,
                          CountCallback (ObjectId ''b'') None]\<rparr>) \<and>
   post_remove env_ok alice world_ab =
     (Next None,
      world_ab\<lparr>w_log := [StateRemove (ObjectId ''u1''),
                          ChannelFind [ObjectId ''a'', ObjectId ''b''],
                          UpdateSubscriberCount (ObjectId ''a''),
                          UpdateSubscriberCount (ObjectId ''b''),
                          OnAccountDelete (ObjectId ''u1'')]\<rparr>,
      [ObjectId ''a'', ObjectId ''b''])"
  by (simp add: removal_run_def post_remove_def subscribedChannels_def example_defs
      storage_defs)

section \<open>checkIfUnverified (C10)\<close>

text \<open>
  Claim C10: where the global object has no \<^verbatim>\<open>id\<close> either, every call of
  \<^verbatim>\<open>checkIfUnverified\<close> throws a ReferenceError for \<^verbatim>\<open>id\<close>, whatever the user id: no
  query is issued (the world is unchanged) and the callback is not invoked.
\<close>

theorem checkIfUnverified_throws:
  "globals ''id'' = None \<Longrightarrow>
   checkIfUnverified env globals user_id w = (w, Inl (ReferenceError ''id''))"
  by (simp add: checkIfUnverified_def)

text \<open>The theorem for the unverified bob, against a store that holds him.\<close>

theorem checkIfUnverified_throws_witness:
  "checkIfUnverified env_ok (\<lambda>name. None) (ObjectId ''u2'') world_ab =
     (world_ab, Inl (ReferenceError ''id''))"
  using checkIfUnverified_throws [of "\<lambda>name. None" env_ok "ObjectId ''u2''" world_ab]
  by simp

end
